theory Spec2Isabelle
  imports Complex_Main
begin

section \<open>JavaScript numbers\<close>

text \<open>
  The calculator computes with JavaScript Numbers, the IEEE doubles. A Number is
  modelled as NaN, a finite value or one of the two infinities. The special values
  follow ECMAScript: a division by zero does not raise, it yields an infinity or NaN,
  and every comparison with NaN is false.

  The range of the doubles is modelled: a finite result of magnitude
  \<open>2^1024 - 2^970\<close> or more is an infinity (overflow), one of magnitude \<open>2^-1075\<close> or
  less is zero (underflow). Inside the range a finite result is the exact real: the
  rounding to 53 bits is not modelled, so nothing is proved here that depends on the
  last bits of a result. The two zeros are one value (a zero divisor counts as \<open>+0\<close>).
\<close>

datatype jsnum = NaN | Fin real | PInf | NInf

fun isNaN :: "jsnum \<Rightarrow> bool" where
  "isNaN NaN = True"
| "isNaN _ = False"

fun isFinite :: "jsnum \<Rightarrow> bool" where
  "isFinite (Fin _) = True"
| "isFinite _ = False"

text \<open>The sign of a value that is not NaN: \<open>-1\<close>, \<open>0\<close> or \<open>1\<close>.\<close>

fun js_sign :: "jsnum \<Rightarrow> real" where
  "js_sign (Fin a) = sgn a"
| "js_sign PInf = 1"
| "js_sign NInf = - 1"
| "js_sign NaN = 0"

definition double_max_bound :: real where
  "double_max_bound = 2 ^ 1024 - 2 ^ 970"

definition double_min_bound :: real where
  "double_min_bound = 1 / 2 ^ 1075"

text \<open>The Number for the exact finite result \<open>x\<close> of an operation.\<close>

definition double_range :: "real \<Rightarrow> jsnum" where
  "double_range x =
     (if double_max_bound \<le> \<bar>x\<bar> then (if 0 < x then PInf else NInf)
      else if \<bar>x\<bar> \<le> double_min_bound then Fin 0
      else Fin x)"

fun js_neg :: "jsnum \<Rightarrow> jsnum" where
  "js_neg NaN = NaN"
| "js_neg (Fin a) = Fin (- a)"
| "js_neg PInf = NInf"
| "js_neg NInf = PInf"

text \<open>Adding a zero returns the other operand, as it does on doubles.\<close>

fun js_add :: "jsnum \<Rightarrow> jsnum \<Rightarrow> jsnum" where
  "js_add NaN y = NaN"
| "js_add (Fin a) NaN = NaN"
| "js_add (Fin a) (Fin b) =
     (if b = 0 then Fin a else if a = 0 then Fin b else double_range (a + b))"
| "js_add (Fin a) PInf = PInf"
| "js_add (Fin a) NInf = NInf"
| "js_add PInf NaN = NaN"
| "js_add PInf (Fin b) = PInf"
| "js_add PInf PInf = PInf"
| "js_add PInf NInf = NaN"
| "js_add NInf NaN = NaN"
| "js_add NInf (Fin b) = NInf"
| "js_add NInf PInf = NaN"
| "js_add NInf NInf = NInf"

definition js_sub :: "jsnum \<Rightarrow> jsnum \<Rightarrow> jsnum" where
  "js_sub x y = js_add x (js_neg y)"

text \<open>The infinity of a given nonzero sign; NaN for the sign \<open>0\<close>.\<close>

definition js_inf :: "real \<Rightarrow> jsnum" where
  "js_inf s = (if s = 0 then NaN else if 0 < s then PInf else NInf)"

fun js_mul :: "jsnum \<Rightarrow> jsnum \<Rightarrow> jsnum" where
  "js_mul NaN y = NaN"
| "js_mul (Fin a) NaN = NaN"
| "js_mul (Fin a) (Fin b) = double_range (a * b)"
| "js_mul (Fin a) PInf = js_inf (sgn a)"
| "js_mul (Fin a) NInf = js_inf (- sgn a)"
| "js_mul PInf y = (if isNaN y then NaN else js_inf (js_sign y))"
| "js_mul NInf y = (if isNaN y then NaN else js_inf (- js_sign y))"

fun js_div :: "jsnum \<Rightarrow> jsnum \<Rightarrow> jsnum" where
  "js_div NaN y = NaN"
| "js_div (Fin a) NaN = NaN"
| "js_div (Fin a) (Fin b) = (if b = 0 then js_inf (sgn a) else double_range (a / b))"
| "js_div (Fin a) PInf = Fin 0"
| "js_div (Fin a) NInf = Fin 0"
| "js_div PInf (Fin b) = (if 0 \<le> b then PInf else NInf)"
| "js_div PInf y = NaN"
| "js_div NInf (Fin b) = (if 0 \<le> b then NInf else PInf)"
| "js_div NInf y = NaN"

fun js_lt :: "jsnum \<Rightarrow> jsnum \<Rightarrow> bool" where
  "js_lt NaN y = False"
| "js_lt (Fin a) (Fin b) = (a < b)"
| "js_lt (Fin a) PInf = True"
| "js_lt (Fin a) y = False"
| "js_lt NInf (Fin b) = True"
| "js_lt NInf PInf = True"
| "js_lt NInf y = False"
| "js_lt PInf y = False"

text \<open>\<open>x <= y\<close> of JavaScript: false when an operand is NaN, else \<open>x < y\<close> or equal.\<close>

definition js_le :: "jsnum \<Rightarrow> jsnum \<Rightarrow> bool" where
  "js_le x y = (\<not> isNaN x \<and> \<not> isNaN y \<and> (js_lt x y \<or> x = y))"

text \<open>\<open>x === y\<close> on Numbers: NaN is equal to nothing.\<close>

definition js_eq :: "jsnum \<Rightarrow> jsnum \<Rightarrow> bool" where
  "js_eq x y = (\<not> isNaN x \<and> \<not> isNaN y \<and> x = y)"

instantiation jsnum :: "{plus, minus, uminus, times, inverse, ord}"
begin

definition plus_jsnum :: "jsnum \<Rightarrow> jsnum \<Rightarrow> jsnum" where
  "plus_jsnum x y = js_add x y"

definition minus_jsnum :: "jsnum \<Rightarrow> jsnum \<Rightarrow> jsnum" where
  "minus_jsnum x y = js_sub x y"

definition uminus_jsnum :: "jsnum \<Rightarrow> jsnum" where
  "uminus_jsnum x = js_neg x"

definition times_jsnum :: "jsnum \<Rightarrow> jsnum \<Rightarrow> jsnum" where
  "times_jsnum x y = js_mul x y"

definition divide_jsnum :: "jsnum \<Rightarrow> jsnum \<Rightarrow> jsnum" where
  "divide_jsnum x y = js_div x y"

definition inverse_jsnum :: "jsnum \<Rightarrow> jsnum" where
  "inverse_jsnum x = js_div (Fin 1) x"

definition less_jsnum :: "jsnum \<Rightarrow> jsnum \<Rightarrow> bool" where
  "less_jsnum x y = js_lt x y"

definition less_eq_jsnum :: "jsnum \<Rightarrow> jsnum \<Rightarrow> bool" where
  "less_eq_jsnum x y = js_le x y"

instance ..

end

text \<open>
  \<open>Math.max(x, y)\<close>: NaN when an operand is NaN.
\<close>

definition Math_max :: "jsnum \<Rightarrow> jsnum \<Rightarrow> jsnum" where
  "Math_max x y = (if isNaN x \<or> isNaN y then NaN else if x < y then y else x)"

text \<open>
  \<open>Math.pow(base, exponent)\<close>, in the order of the cases of ECMAScript's
  \<open>Number::exponentiate\<close>. For a finite nonzero base and a finite nonzero exponent
  the result is the integer power when the exponent is integral, the real power of a
  positive base otherwise, and NaN for a negative base with a fractional exponent;
  the power overflows and underflows as every other result does.
\<close>

definition is_integral :: "real \<Rightarrow> bool" where
  "is_integral y = (of_int \<lfloor>y\<rfloor> = y)"

definition is_odd_integral :: "real \<Rightarrow> bool" where
  "is_odd_integral y = (is_integral y \<and> odd \<lfloor>y\<rfloor>)"

fun pow_inf_exponent :: "jsnum \<Rightarrow> bool \<Rightarrow> jsnum" where
  "pow_inf_exponent (Fin a) up =
     (if a = 0 then (if up then Fin 0 else PInf)
      else if 1 < \<bar>a\<bar> then (if up then PInf else Fin 0)
      else if \<bar>a\<bar> = 1 then NaN
      else (if up then Fin 0 else PInf))"
| "pow_inf_exponent PInf up = (if up then PInf else Fin 0)"
| "pow_inf_exponent NInf up = (if up then PInf else Fin 0)"
| "pow_inf_exponent NaN up = NaN"

fun Math_pow :: "jsnum \<Rightarrow> jsnum \<Rightarrow> jsnum" where
  "Math_pow x NaN = NaN"
| "Math_pow x PInf = pow_inf_exponent x True"
| "Math_pow x NInf = pow_inf_exponent x False"
| "Math_pow x (Fin y) =
     (if y = 0 then Fin 1
      else case x of
        NaN \<Rightarrow> NaN
      | PInf \<Rightarrow> (if 0 < y then PInf else Fin 0)
      | NInf \<Rightarrow> (if 0 < y then (if is_odd_integral y then NInf else PInf) else Fin 0)
      | Fin a \<Rightarrow>
          (if a = 0 then (if 0 < y then Fin 0 else PInf)
           else if is_integral y then double_range (a powi \<lfloor>y\<rfloor>)
           else if 0 < a then double_range (a powr y)
           else NaN))"

section \<open>The calculation of \<open>calculate\<close> (script.js)\<close>

text \<open>
  The eight constants that step 1 of \<open>calculate\<close> binds: the parsed values of the
  input fields, the two percentages already divided by 100.
\<close>

record inputs =
  salaire :: jsnum
  mensualiteActuel :: jsnum
  prix :: jsnum
  loyer :: jsnum
  tauxAnnuel :: jsnum
  nbMensualites :: jsnum
  endettementMax :: jsnum
  loyerPrisEnCompte :: jsnum

text \<open>Step 2: the condition of the validation \<open>if\<close>; true means the early return.\<close>

definition validation_fails :: "inputs \<Rightarrow> bool" where
  "validation_fails i =
     (isNaN (salaire i) \<or> isNaN (mensualiteActuel i) \<or> isNaN (prix i) \<or> isNaN (loyer i) \<or>
      isNaN (tauxAnnuel i) \<or> isNaN (nbMensualites i) \<or>
      isNaN (endettementMax i) \<or> isNaN (loyerPrisEnCompte i) \<or>
      salaire i < Fin 0 \<or> mensualiteActuel i < Fin 0 \<or> prix i \<le> Fin 0 \<or> loyer i < Fin 0 \<or>
      tauxAnnuel i \<le> Fin 0 \<or> nbMensualites i \<le> Fin 0)"

text \<open>Steps 3 and 4: one definition for each constant of the function body.\<close>

definition tauxMensuel :: "inputs \<Rightarrow> jsnum" where
  "tauxMensuel i = tauxAnnuel i / Fin 100 / Fin 12"

definition endettementActuelTaux :: "inputs \<Rightarrow> jsnum" where
  "endettementActuelTaux i =
     (if salaire i > Fin 0 then mensualiteActuel i / salaire i else Fin 0)"

definition capaciteEndettement :: "inputs \<Rightarrow> jsnum" where
  "capaciteEndettement i = endettementMax i * salaire i"

definition facteurPMT :: "inputs \<Rightarrow> jsnum" where
  "facteurPMT i =
     (tauxMensuel i * Math_pow (Fin 1 + tauxMensuel i) (nbMensualites i)) /
     (Math_pow (Fin 1 + tauxMensuel i) (nbMensualites i) - Fin 1)"

definition mensualiteProjet :: "inputs \<Rightarrow> jsnum" where
  "mensualiteProjet i = prix i * facteurPMT i"

definition cashflow :: "inputs \<Rightarrow> jsnum" where
  "cashflow i = loyer i - mensualiteProjet i"

definition endettementProjetSeulTaux :: "inputs \<Rightarrow> jsnum" where
  "endettementProjetSeulTaux i =
     (if loyer i > Fin 0 then mensualiteProjet i / loyer i else Fin 0)"

text \<open>
  \<open>rendementBrut\<close> as a function of the price, so that it can be evaluated at another
  price than the one entered.
\<close>

definition rendementBrut_at :: "jsnum \<Rightarrow> jsnum \<Rightarrow> jsnum" where
  "rendementBrut_at p l =
     (if p > Fin 0 \<and> l > Fin 0 then ((l * Fin 12) / p) * Fin 100 else Fin 0)"

definition rendementBrut :: "inputs \<Rightarrow> jsnum" where
  "rendementBrut i = rendementBrut_at (prix i) (loyer i)"

definition part1 :: "inputs \<Rightarrow> jsnum" where
  "part1 i =
     (Fin 1 - Math_pow (Fin 1 + tauxMensuel i) (- nbMensualites i)) / tauxMensuel i"

definition rendementSouhaite :: "inputs \<Rightarrow> jsnum" where
  "rendementSouhaite i = (Fin 12 / (endettementMax i * part1 i)) * Fin 100"

definition prixCibleRendement :: "inputs \<Rightarrow> jsnum" where
  "prixCibleRendement i =
     (if rendementSouhaite i > Fin 0 \<and> loyer i > Fin 0
      then (loyer i * Fin 12) / (rendementSouhaite i / Fin 100) else Fin 0)"

definition reductionCible :: "inputs \<Rightarrow> jsnum" where
  "reductionCible i =
     (if prix i > Fin 0 then ((prix i - prixCibleRendement i) / prix i) * Fin 100 else Fin 0)"

definition capaciteEmpruntLocative :: "inputs \<Rightarrow> jsnum" where
  "capaciteEmpruntLocative i = endettementMax i * (loyerPrisEnCompte i * loyer i)"

definition capaciteMensualite :: "inputs \<Rightarrow> jsnum" where
  "capaciteMensualite i =
     capaciteEndettement i + capaciteEmpruntLocative i - mensualiteProjet i - mensualiteActuel i"

definition denominateurDette :: "inputs \<Rightarrow> jsnum" where
  "denominateurDette i = loyer i + salaire i"

definition endettementTotalTaux :: "inputs \<Rightarrow> jsnum" where
  "endettementTotalTaux i =
     (if denominateurDette i > Fin 0
      then (mensualiteProjet i + mensualiteActuel i) / denominateurDette i else Fin 0)"

definition mensualiteCible :: "inputs \<Rightarrow> jsnum" where
  "mensualiteCible i = (endettementMax i * denominateurDette i) - mensualiteActuel i"

definition prixAcceptable :: "inputs \<Rightarrow> jsnum" where
  "prixAcceptable i =
     (if mensualiteCible i > Fin 0 \<and> facteurPMT i > Fin 0
      then mensualiteCible i / facteurPMT i else Fin 0)"

definition reductionMinimum :: "inputs \<Rightarrow> jsnum" where
  "reductionMinimum i =
     (if prix i > Fin 0 then ((prix i - prixAcceptable i) / prix i) * Fin 100 else Fin 0)"

text \<open>Step 5: the three conditions that decide what is shown.\<close>

definition isRentalProject :: "inputs \<Rightarrow> bool" where
  "isRentalProject i = (loyer i > Fin 0)"

definition shouldShowTargetPrice :: "inputs \<Rightarrow> bool" where
  "shouldShowTargetPrice i = (prix i \<ge> prixCibleRendement i)"

definition isNegotiationRequired :: "inputs \<Rightarrow> bool" where
  "isNegotiationRequired i = (prix i > prixAcceptable i)"

section \<open>The page and the effects of \<open>calculate\<close> (script.js)\<close>

text \<open>
  The keys of \<open>outputElements\<close> and of \<open>conditionalContainers\<close>.
\<close>

datatype output_id =
    out_endettementActuel | out_endettementProjetSeul | out_endettementTotal
  | out_capacite | out_capaciteLocative | out_mensualite | out_capaciteMensualite
  | out_cashflow | out_rendement | out_rendementSouhaite | out_prixCible
  | out_reductionCible | out_prixAcceptable | out_reductionMinimum

datatype container_id =
    locatifResults | locatifResults2 | locatifResults3 | locatifResults4
  | reductionResults | reductionResults2 | itemPrixCible | itemReductionCible

text \<open>
  What \<open>calculate\<close> writes into the \<open>textContent\<close> of an output element: the text
  \<open>...\<close>, a number formatted by \<open>currencyFormatter\<close>, or a number formatted by
  \<open>toFixed\<close> with the given number of digits and followed by \<open>%\<close>. The formatted
  strings themselves are not modelled.
\<close>

datatype content = Dots | Currency jsnum | Percent jsnum nat

text \<open>
  The state \<open>calculate\<close> reads and writes: the \<open>value\<close> of each input element by its
  id, the \<open>style.display\<close> of the error element and of each container, the text and
  the class of each output element, and the local storage. \<open>setItem_calls\<close> records
  every call of \<open>localStorage.setItem\<close> in order.
\<close>

record page =
  field_value :: "string \<Rightarrow> string"
  error_display :: string
  textContent :: "output_id \<Rightarrow> content"
  className :: "output_id \<Rightarrow> string"
  display :: "container_id \<Rightarrow> string"
  localStorage :: "string \<rightharpoonup> string"
  setItem_calls :: "(string \<times> string) list"

definition inputIds :: "string list" where
  "inputIds = [''prix'', ''loyer'', ''taux'', ''duree'', ''salaire'', ''mensualiteActuel'',
               ''endettementMax'', ''loyerPrisEnCompte'']"

definition setItem :: "string \<Rightarrow> string \<Rightarrow> page \<Rightarrow> page" where
  "setItem k v pg =
     pg\<lparr>localStorage := (localStorage pg)(k \<mapsto> v),
        setItem_calls := setItem_calls pg @ [(k, v)]\<rparr>"

definition saveData :: "page \<Rightarrow> page" where
  "saveData pg = foldl (\<lambda>p ident. setItem ident (field_value p ident) p) pg inputIds"

text \<open>
  Step 1. \<open>parseFloat\<close> and \<open>parseInt(_, 10)\<close> are functions of the language, taken as
  parameters.
\<close>

definition read_inputs :: "(string \<Rightarrow> jsnum) \<Rightarrow> (string \<Rightarrow> jsnum) \<Rightarrow> page \<Rightarrow> inputs" where
  "read_inputs parseFloat parseInt10 pg =
     \<lparr>salaire = parseFloat (field_value pg ''salaire''),
      mensualiteActuel = parseFloat (field_value pg ''mensualiteActuel''),
      prix = parseFloat (field_value pg ''prix''),
      loyer = parseFloat (field_value pg ''loyer''),
      tauxAnnuel = parseFloat (field_value pg ''taux''),
      nbMensualites = parseInt10 (field_value pg ''duree''),
      endettementMax = parseFloat (field_value pg ''endettementMax'') / Fin 100,
      loyerPrisEnCompte = parseFloat (field_value pg ''loyerPrisEnCompte'') / Fin 100\<rparr>"

definition show_invalid :: "page \<Rightarrow> page" where
  "show_invalid pg =
     pg\<lparr>error_display := ''block'',
        textContent := (\<lambda>_. Dots),
        display := (\<lambda>_. ''none'')\<rparr>"

definition sign_class :: "jsnum \<Rightarrow> string" where
  "sign_class x =
     (if x \<ge> Fin 0 then ''value cashflow-positive'' else ''value cashflow-negative'')"

definition update_permanent :: "inputs \<Rightarrow> page \<Rightarrow> page" where
  "update_permanent i pg =
     pg\<lparr>textContent := (textContent pg)
          (out_mensualite := Currency (mensualiteProjet i),
           out_endettementActuel := Percent (endettementActuelTaux i * Fin 100) 1,
           out_capacite := Currency (Math_max (Fin 0) (capaciteEndettement i)),
           out_capaciteMensualite := Currency (capaciteMensualite i)),
        className := (className pg)
          (out_capaciteMensualite := sign_class (capaciteMensualite i))\<rparr>"

definition update_target :: "inputs \<Rightarrow> page \<Rightarrow> page" where
  "update_target i pg =
     (let shown = (if shouldShowTargetPrice i then ''flex'' else ''none'');
          pg1 = pg\<lparr>display := (display pg)
                  (itemPrixCible := shown, itemReductionCible := shown)\<rparr>
      in if shouldShowTargetPrice i
         then pg1\<lparr>textContent := (textContent pg1)
                (out_prixCible := Currency (prixCibleRendement i),
                 out_reductionCible := Percent (Math_max (Fin 0) (reductionCible i)) 1)\<rparr>
         else pg1)"

definition update_rental :: "inputs \<Rightarrow> page \<Rightarrow> page" where
  "update_rental i pg =
     (let shown = (if isRentalProject i then ''block'' else ''none'');
          pg1 = pg\<lparr>display := (display pg)
                  (locatifResults := shown, locatifResults2 := shown,
                   locatifResults3 := shown, locatifResults4 := shown)\<rparr>
      in if isRentalProject i
         then update_target i
                (pg1\<lparr>textContent := (textContent pg1)
                   (out_cashflow := Currency (cashflow i),
                    out_endettementProjetSeul := Percent (endettementProjetSeulTaux i * Fin 100) 1,
                    out_rendement := Percent (rendementBrut i) 2,
                    out_rendementSouhaite := Percent (rendementSouhaite i) 2,
                    out_capaciteLocative := Currency (capaciteEmpruntLocative i)),
                  className := (className pg1)
                   (out_cashflow := sign_class (cashflow i))\<rparr>)
         else pg1)"

definition update_negotiation :: "inputs \<Rightarrow> page \<Rightarrow> page" where
  "update_negotiation i pg =
     (let shown = (if isNegotiationRequired i then ''block'' else ''none'');
          pg1 = pg\<lparr>display := (display pg)
                  (reductionResults := shown, reductionResults2 := shown)\<rparr>
      in if isNegotiationRequired i
         then pg1\<lparr>textContent := (textContent pg1)
                (out_endettementTotal := Percent (endettementTotalTaux i * Fin 100) 1,
                 out_prixAcceptable := Currency (prixAcceptable i),
                 out_reductionMinimum := Percent (Math_max (Fin 0) (reductionMinimum i)) 1)\<rparr>
         else pg1)"

definition calculate :: "(string \<Rightarrow> jsnum) \<Rightarrow> (string \<Rightarrow> jsnum) \<Rightarrow> page \<Rightarrow> page" where
  "calculate parseFloat parseInt10 pg =
     (let i = read_inputs parseFloat parseInt10 pg
      in if validation_fails i then show_invalid pg
         else saveData
                (update_negotiation i
                  (update_rental i
                    (update_permanent i (pg\<lparr>error_display := ''none''\<rparr>)))))"

section \<open>The monthly payment of the simpler calculator\<close>

text \<open>\<open>calculateMensualiteProjet\<close>, the inner function of the second \<open>calculate\<close>.\<close>

definition calculateMensualiteProjet :: "jsnum \<Rightarrow> jsnum \<Rightarrow> jsnum \<Rightarrow> jsnum" where
  "calculateMensualiteProjet capital tauxAnnuel' dureeMois =
     (if js_eq tauxAnnuel' (Fin 0) then capital / dureeMois
      else let tauxMensuel' = tauxAnnuel' / Fin 1200
           in capital * tauxMensuel' / (Fin 1 - Math_pow (Fin 1 + tauxMensuel') (- dureeMois)))"

section \<open>The specification's notions\<close>

text \<open>
  The specification's Valid input vector: every field is a finite number, the price,
  the rate and the term are positive, the rent, the income and the current debt are
  not negative.
\<close>

definition spec_Valid :: "inputs \<Rightarrow> bool" where
  "spec_Valid i =
     (isFinite (salaire i) \<and> isFinite (mensualiteActuel i) \<and> isFinite (prix i) \<and>
      isFinite (loyer i) \<and> isFinite (tauxAnnuel i) \<and> isFinite (nbMensualites i) \<and>
      isFinite (endettementMax i) \<and> isFinite (loyerPrisEnCompte i) \<and>
      prix i > Fin 0 \<and> tauxAnnuel i > Fin 0 \<and> nbMensualites i > Fin 0 \<and>
      loyer i \<ge> Fin 0 \<and> salaire i \<ge> Fin 0 \<and> mensualiteActuel i \<ge> Fin 0)"

text \<open>
  The fields are number inputs (\<open>input[type="number"]\<close>): the value of such an element
  is the empty string or a valid floating-point number in the range of the doubles, so
  that \<open>parseFloat\<close> and \<open>parseInt\<close> return NaN or a finite number on it, never an
  infinity.
\<close>

definition NaN_or_finite :: "jsnum \<Rightarrow> bool" where
  "NaN_or_finite x = (isNaN x \<or> isFinite x)"

definition from_number_inputs :: "inputs \<Rightarrow> bool" where
  "from_number_inputs i =
     (NaN_or_finite (salaire i) \<and> NaN_or_finite (mensualiteActuel i) \<and>
      NaN_or_finite (prix i) \<and> NaN_or_finite (loyer i) \<and> NaN_or_finite (tauxAnnuel i) \<and>
      NaN_or_finite (nbMensualites i) \<and> NaN_or_finite (endettementMax i) \<and>
      NaN_or_finite (loyerPrisEnCompte i))"

text \<open>
  The specification's closed form of the monthly payment, on real numbers: the
  annuity value for the monthly rate \<open>annualRatePercent / 1200\<close>.
\<close>

definition annuity_payment :: "real \<Rightarrow> real \<Rightarrow> real \<Rightarrow> real" where
  "annuity_payment capital annualRatePercent termMonths =
     capital * (annualRatePercent / 1200) /
       (1 - (1 + annualRatePercent / 1200) powr (- termMonths))"

section \<open>Example inputs\<close>

text \<open>
  The specification's concrete scenario: price 200000, rent 800, rate 3.5 percent,
  240 months, income 3000, current debt 200, debt ratio 0.35, rent inclusion 0.7.
\<close>

definition scenario :: inputs where
  "scenario = \<lparr>salaire = Fin 3000, mensualiteActuel = Fin 200, prix = Fin 200000,
     loyer = Fin 800, tauxAnnuel = Fin 3.5, nbMensualites = Fin 240,
     endettementMax = Fin 0.35, loyerPrisEnCompte = Fin 0.7\<rparr>"

text \<open>
  The scenario with the rate 1200 percent a year (a monthly rate of 1) and a term of
  1100 months: \<open>2^1100\<close> is beyond the largest double.
\<close>

definition overflow_inputs :: inputs where
  "overflow_inputs = scenario\<lparr>tauxAnnuel := Fin 1200, nbMensualites := Fin 1100\<rparr>"

text \<open>
  A one-month loan at 1200 percent a year (a monthly rate of 1), for which every power
  is a rational number: the price 100 is at once the acceptable price and the target
  price.
\<close>

definition boundary_inputs :: inputs where
  "boundary_inputs = \<lparr>salaire = Fin 0, mensualiteActuel = Fin 0, prix = Fin 100,
     loyer = Fin 200, tauxAnnuel = Fin 1200, nbMensualites = Fin 1,
     endettementMax = Fin 1, loyerPrisEnCompte = Fin 1\<rparr>"

text \<open>
  What \<open>parseFloat\<close> and \<open>parseInt(_, 10)\<close> return on the strings of the example
  pages: the five numerals below, and NaN on the empty string. Used in examples only.
\<close>

definition example_parse :: "string \<Rightarrow> jsnum" where
  "example_parse s =
     (if s = ''0'' then Fin 0 else if s = ''1'' then Fin 1 else if s = ''100'' then Fin 100
      else if s = ''200'' then Fin 200 else if s = ''1200'' then Fin 1200 else NaN)"

text \<open>
  A page whose fields hold \<open>boundary_inputs\<close>, the same page with the rent 0, and a
  page whose fields are empty.
\<close>

definition boundary_page :: page where
  "boundary_page = \<lparr>field_value = (\<lambda>k.
       if k = ''prix'' then ''100'' else if k = ''loyer'' then ''200''
       else if k = ''taux'' then ''1200'' else if k = ''duree'' then ''1''
       else if k = ''salaire'' then ''0'' else if k = ''mensualiteActuel'' then ''0''
       else if k = ''endettementMax'' then ''100''
       else if k = ''loyerPrisEnCompte'' then ''100'' else []),
     error_display = ''none'', textContent = (\<lambda>_. Dots), className = (\<lambda>_. []),
     display = (\<lambda>_. ''none''), localStorage = Map.empty, setItem_calls = []\<rparr>"

definition no_rent_page :: page where
  "no_rent_page = boundary_page\<lparr>field_value := (field_value boundary_page)(''loyer'' := ''0'')\<rparr>"

definition blank_page :: page where
  "blank_page = \<lparr>field_value = (\<lambda>_. []), error_display = ''none'',
     textContent = (\<lambda>_. Dots), className = (\<lambda>_. []), display = (\<lambda>_. ''none''),
     localStorage = Map.empty, setItem_calls = []\<rparr>"

section \<open>The range of the doubles\<close>

lemmas js_ops = plus_jsnum_def minus_jsnum_def uminus_jsnum_def times_jsnum_def
  divide_jsnum_def less_jsnum_def less_eq_jsnum_def js_sub_def js_le_def js_eq_def js_inf_def

lemma double_bounds: "double_min_bound < 1 / 2 ^ 1000" "2 ^ 1000 < double_max_bound"
proof -
  have "(2::real) ^ 1000 < 2 ^ 1075" by (rule power_strict_increasing) simp_all
  then have "1 / (2::real) ^ 1075 < 1 / 2 ^ 1000"
    by (intro divide_strict_left_mono) simp_all
  then show "double_min_bound < 1 / 2 ^ 1000" by (simp only: double_min_bound_def)
  have "(2::real) ^ 970 \<le> 2 ^ 1000" by (rule power_increasing) simp_all
  then have "(2::real) ^ 1000 + 2 ^ 970 \<le> 2 * 2 ^ 1000" by linarith
  also have "\<dots> = 2 ^ 1001" by (simp only: power_Suc[symmetric]) simp
  also have "\<dots> < (2::real) ^ 1024" by (rule power_strict_increasing) simp_all
  finally show "2 ^ 1000 < double_max_bound" unfolding double_max_bound_def by linarith
qed

lemma double_range_in:
  assumes "1 / 2 ^ 1000 \<le> \<bar>x\<bar>" "\<bar>x\<bar> \<le> 2 ^ 1000"
  shows "double_range x = Fin x"
proof -
  have "\<not> double_max_bound \<le> \<bar>x\<bar>" using assms(2) double_bounds(2) by linarith
  moreover have "\<not> \<bar>x\<bar> \<le> double_min_bound" using assms(1) double_bounds(1) by linarith
  ultimately show ?thesis by (simp only: double_range_def if_False)
qed

lemma double_range_ordinary:
  assumes "1 / 2 ^ 64 \<le> \<bar>x\<bar>" "\<bar>x\<bar> \<le> 2 ^ 64"
  shows "double_range x = Fin x"
proof (rule double_range_in)
  have "(2::real) ^ 64 \<le> 2 ^ 1000" by (rule power_increasing) simp_all
  then have "1 / (2::real) ^ 1000 \<le> 1 / 2 ^ 64"
    by (intro divide_left_mono) simp_all
  with assms(1) show "1 / 2 ^ 1000 \<le> \<bar>x\<bar>" by linarith
  from \<open>(2::real) ^ 64 \<le> 2 ^ 1000\<close> assms(2) show "\<bar>x\<bar> \<le> 2 ^ 1000" by linarith
qed

lemma double_range_0 [simp]: "double_range 0 = Fin 0"
proof -
  have "(0::real) < 2 ^ 1000" by simp
  then have "\<not> double_max_bound \<le> \<bar>0::real\<bar>" using double_bounds(2) by simp
  moreover have "\<bar>0::real\<bar> \<le> double_min_bound" by (simp add: double_min_bound_def)
  ultimately show ?thesis by (simp only: double_range_def if_True if_False)
qed

lemma double_range_between:
  assumes "1 / 2 ^ k \<le> x" "x \<le> 2 ^ l" "k \<le> 1000" "l \<le> 1000"
  shows "double_range x = Fin x"
proof (rule double_range_in)
  have "(2::real) ^ k \<le> 2 ^ 1000" using assms(3) by (intro power_increasing) simp_all
  then have "1 / (2::real) ^ 1000 \<le> 1 / 2 ^ k" by (intro divide_left_mono) simp_all
  moreover have "0 < 1 / (2::real) ^ k" by simp
  ultimately show "1 / 2 ^ 1000 \<le> \<bar>x\<bar>" using assms(1) by linarith
  have "(2::real) ^ l \<le> 2 ^ 1000" using assms(4) by (intro power_increasing) simp_all
  moreover have "0 < x" using assms(1) \<open>0 < 1 / (2::real) ^ k\<close> by linarith
  ultimately show "\<bar>x\<bar> \<le> 2 ^ 1000" using assms(2) by linarith
qed

lemma is_integral_of_int [simp]: "is_integral (of_int n)"
  by (simp add: is_integral_def)

lemma Math_pow_int:
  assumes "a \<noteq> 0" "n \<noteq> 0"
  shows "Math_pow (Fin a) (Fin (of_int n)) = double_range (a powi n)"
  using assms by simp

declare Math_pow.simps [simp del]

lemma pow_2_1: "Math_pow (Fin 2) (Fin 1) = Fin 2"
  using Math_pow_int[of 2 1] by (simp add: double_range_ordinary)

lemma pow_2_m1: "Math_pow (Fin 2) (Fin (- 1)) = Fin (1 / 2)"
  using Math_pow_int[of 2 "- 1"] by (simp add: double_range_ordinary)

text \<open>\<open>2^1100\<close> overflows and \<open>2^-1100\<close> underflows.\<close>

lemma pow_2_1100: "Math_pow (Fin 2) (Fin 1100) = PInf"
proof -
  have "(2::real) ^ 1024 \<le> 2 ^ 1100" by (rule power_increasing) simp_all
  moreover have "(0::real) \<le> 2 ^ 970" by simp
  ultimately have "double_max_bound \<le> \<bar>(2::real) ^ 1100\<bar>"
    unfolding double_max_bound_def by linarith
  moreover have "(0::real) < 2 ^ 1100" by simp
  ultimately have "double_range (2 ^ 1100) = PInf"
    by (simp only: double_range_def if_True)
  moreover have "(2::real) powi 1100 = 2 ^ 1100" by (rule power_int_numeral)
  moreover have "Math_pow (Fin 2) (Fin (of_int 1100)) = double_range (2 powi 1100)"
    by (rule Math_pow_int) simp_all
  moreover have "(of_int 1100::real) = 1100" by simp
  ultimately show ?thesis by (simp only:)
qed

lemma pow_2_m1100: "Math_pow (Fin 2) (Fin (- 1100)) = Fin 0"
proof -
  define x :: real where "x = 1 / 2 ^ 1100"
  have "(2::real) ^ 1075 \<le> 2 ^ 1100" by (rule power_increasing) simp_all
  then have small: "x \<le> 1 / 2 ^ 1075"
    unfolding x_def by (intro divide_left_mono) simp_all
  have pos: "0 < x" by (simp add: x_def)
  have "(1::real) / 2 ^ 1075 \<le> 1" by simp
  moreover have "(1::real) < 2 ^ 1000" by (rule one_less_power) simp_all
  ultimately have "\<not> double_max_bound \<le> \<bar>x\<bar>"
    using small pos double_bounds(2) by linarith
  moreover have "\<bar>x\<bar> \<le> double_min_bound"
    using small pos by (simp add: double_min_bound_def)
  ultimately have "double_range x = Fin 0"
    by (simp only: double_range_def if_True if_False)
  moreover have "(2::real) powi (- 1100) = x"
    unfolding x_def by (simp only: power_int_minus power_int_numeral inverse_eq_divide)
  moreover have "Math_pow (Fin 2) (Fin (of_int (- 1100))) = double_range (2 powi (- 1100))"
    by (rule Math_pow_int) simp_all
  moreover have "(of_int (- 1100)::real) = - 1100" by simp
  ultimately show ?thesis by (simp only:)
qed

section \<open>Valid input vectors\<close>

lemma spec_Valid_cases:
  assumes "spec_Valid i"
  obtains s m p l a n e c where
    "salaire i = Fin s" "mensualiteActuel i = Fin m" "prix i = Fin p" "loyer i = Fin l"
    "tauxAnnuel i = Fin a" "nbMensualites i = Fin n" "endettementMax i = Fin e"
    "loyerPrisEnCompte i = Fin c"
    "0 \<le> s" "0 \<le> m" "0 < p" "0 \<le> l" "0 < a" "0 < n"
proof -
  from assms obtain s m p l a n e c where f:
    "salaire i = Fin s" "mensualiteActuel i = Fin m" "prix i = Fin p" "loyer i = Fin l"
    "tauxAnnuel i = Fin a" "nbMensualites i = Fin n" "endettementMax i = Fin e"
    "loyerPrisEnCompte i = Fin c"
    unfolding spec_Valid_def
    by (metis isFinite.elims(2))
  with assms have "0 \<le> s" "0 \<le> m" "0 < p" "0 \<le> l" "0 < a" "0 < n"
    by (auto simp: spec_Valid_def js_ops)
  with f show ?thesis by (rule that)
qed

text \<open>Every vector that is Valid for the specification passes the validation.\<close>

lemma spec_Valid_passes: "spec_Valid i \<Longrightarrow> \<not> validation_fails i"
  by (erule spec_Valid_cases) (simp add: validation_fails_def js_ops)

section \<open>Validation\<close>

lemma not_lt_zero: "\<not> isNaN x \<Longrightarrow> (\<not> x < Fin 0) = (x \<ge> Fin 0)"
  by (cases x) (auto simp: js_ops)

lemma not_le_zero: "\<not> isNaN x \<Longrightarrow> (\<not> x \<le> Fin 0) = (x > Fin 0)"
  by (cases x) (auto simp: js_ops)

lemma js_le_refl: "\<not> isNaN x \<Longrightarrow> x \<le> x"
  by (simp add: js_ops)

lemma js_lt_irrefl: "\<not> (x::jsnum) < x"
  by (cases x) (simp_all add: js_ops)

lemma validation_passes_iff:
  "(\<not> validation_fails i) =
     (\<not> isNaN (salaire i) \<and> \<not> isNaN (mensualiteActuel i) \<and> \<not> isNaN (prix i) \<and>
      \<not> isNaN (loyer i) \<and> \<not> isNaN (tauxAnnuel i) \<and> \<not> isNaN (nbMensualites i) \<and>
      \<not> isNaN (endettementMax i) \<and> \<not> isNaN (loyerPrisEnCompte i) \<and>
      prix i > Fin 0 \<and> tauxAnnuel i > Fin 0 \<and> nbMensualites i > Fin 0 \<and>
      loyer i \<ge> Fin 0 \<and> salaire i \<ge> Fin 0 \<and> mensualiteActuel i \<ge> Fin 0)"
  unfolding validation_fails_def
  using not_lt_zero[of "salaire i"] not_lt_zero[of "mensualiteActuel i"] not_lt_zero[of "loyer i"]
    not_le_zero[of "prix i"] not_le_zero[of "tauxAnnuel i"] not_le_zero[of "nbMensualites i"]
  by blast

lemma valid_prix_pos: "\<not> validation_fails i \<Longrightarrow> prix i > Fin 0"
  by (simp add: validation_passes_iff)

text \<open>A field of a number input that is not NaN is finite.\<close>

lemma NaN_or_finite_cases: "NaN_or_finite x \<Longrightarrow> \<not> isNaN x \<Longrightarrow> isFinite x"
  by (simp add: NaN_or_finite_def)

text \<open>
  Claim C2. The input vector, read from number inputs, is classified Valid (the
  validation of \<open>calculate\<close> does not fail) if and only if every field is a finite
  number, the price, the rate and the term are positive, and the rent, the income and
  the current debt are not negative; the two ratios only need to be numbers.
  Otherwise it is Invalid and no result is produced: \<open>calculate\<close> shows the error,
  writes \<open>...\<close> into every output, hides every container and returns.
\<close>

theorem validation_accepts_valid_vectors:
  "(from_number_inputs i \<longrightarrow> (\<not> validation_fails i) = spec_Valid i) \<and>
   (validation_fails (read_inputs parseFloat parseInt10 pg) \<longrightarrow>
      calculate parseFloat parseInt10 pg = show_invalid pg \<and>
      error_display (calculate parseFloat parseInt10 pg) = ''block'' \<and>
      (\<forall>out. textContent (calculate parseFloat parseInt10 pg) out = Dots) \<and>
      (\<forall>c. display (calculate parseFloat parseInt10 pg) c = ''none''))"
proof (intro conjI impI)
  assume n: "from_number_inputs i"
  show "(\<not> validation_fails i) = spec_Valid i"
  proof
    assume v: "\<not> validation_fails i"
    then have nn: "\<not> isNaN (salaire i)" "\<not> isNaN (mensualiteActuel i)" "\<not> isNaN (prix i)"
      "\<not> isNaN (loyer i)" "\<not> isNaN (tauxAnnuel i)" "\<not> isNaN (nbMensualites i)"
      "\<not> isNaN (endettementMax i)" "\<not> isNaN (loyerPrisEnCompte i)"
      by (simp_all add: validation_passes_iff)
    from n have "isFinite (salaire i)" "isFinite (mensualiteActuel i)" "isFinite (prix i)"
      "isFinite (loyer i)" "isFinite (tauxAnnuel i)" "isFinite (nbMensualites i)"
      "isFinite (endettementMax i)" "isFinite (loyerPrisEnCompte i)"
      using nn by (simp_all add: from_number_inputs_def NaN_or_finite_cases)
    with v show "spec_Valid i"
      by (simp add: validation_passes_iff spec_Valid_def)
  next
    assume "spec_Valid i"
    then show "\<not> validation_fails i" by (rule spec_Valid_passes)
  qed
next
  assume "validation_fails (read_inputs parseFloat parseInt10 pg)"
  then show "calculate parseFloat parseInt10 pg = show_invalid pg"
    "error_display (calculate parseFloat parseInt10 pg) = ''block''"
    "\<forall>out. textContent (calculate parseFloat parseInt10 pg) out = Dots"
    "\<forall>c. display (calculate parseFloat parseInt10 pg) c = ''none''"
    by (simp_all add: calculate_def show_invalid_def Let_def)
qed

theorem validation_accepts_valid_vectors_witness:
  "from_number_inputs scenario \<and> \<not> validation_fails scenario \<and> spec_Valid scenario \<and>
   from_number_inputs (scenario\<lparr>prix := Fin (- 1)\<rparr>) \<and>
   validation_fails (scenario\<lparr>prix := Fin (- 1)\<rparr>) \<and>
   \<not> spec_Valid (scenario\<lparr>prix := Fin (- 1)\<rparr>) \<and>
   validation_fails (read_inputs example_parse example_parse blank_page) \<and>
   calculate example_parse example_parse blank_page = show_invalid blank_page \<and>
   error_display (calculate example_parse example_parse blank_page) = ''block''"
proof -
  have n1: "from_number_inputs scenario"
    by (simp add: from_number_inputs_def NaN_or_finite_def scenario_def)
  have n2: "from_number_inputs (scenario\<lparr>prix := Fin (- 1)\<rparr>)"
    by (simp add: from_number_inputs_def NaN_or_finite_def scenario_def)
  have ok: "\<not> validation_fails scenario"
    by (simp add: scenario_def js_ops validation_fails_def)
  have no: "validation_fails (scenario\<lparr>prix := Fin (- 1)\<rparr>)"
    by (simp add: scenario_def js_ops validation_fails_def)
  have bad: "validation_fails (read_inputs example_parse example_parse blank_page)"
    by (simp add: read_inputs_def validation_fails_def blank_page_def example_parse_def)
  show ?thesis
    using validation_accepts_valid_vectors
        [of scenario example_parse example_parse blank_page]
      validation_accepts_valid_vectors
        [of "scenario\<lparr>prix := Fin (- 1)\<rparr>" example_parse example_parse blank_page]
      n1 n2 ok no bad
    by blast
qed

section \<open>The effects of \<open>calculate\<close>\<close>

lemma saveData_fold:
  "foldl (\<lambda>p ident. setItem ident (field_value p ident) p) pg ks =
     pg\<lparr>localStorage := (\<lambda>k. if k \<in> set ks then Some (field_value pg k) else localStorage pg k),
        setItem_calls := setItem_calls pg @ map (\<lambda>k. (k, field_value pg k)) ks\<rparr>"
proof (induction ks rule: rev_induct)
  case Nil
  show ?case by simp
next
  case (snoc k ks)
  show ?case
    unfolding foldl_append foldl.simps snoc.IH
    by (simp add: setItem_def fun_eq_iff)
qed

lemma saveData_eq:
  "saveData pg =
     pg\<lparr>localStorage := (\<lambda>k. if k \<in> set inputIds then Some (field_value pg k) else localStorage pg k),
        setItem_calls := setItem_calls pg @ map (\<lambda>k. (k, field_value pg k)) inputIds\<rparr>"
  unfolding saveData_def by (rule saveData_fold)

lemma update_permanent_keeps [simp]:
  "field_value (update_permanent i pg) = field_value pg"
  "localStorage (update_permanent i pg) = localStorage pg"
  "setItem_calls (update_permanent i pg) = setItem_calls pg"
  "display (update_permanent i pg) = display pg"
  by (simp_all add: update_permanent_def)

lemma update_target_keeps [simp]:
  "field_value (update_target i pg) = field_value pg"
  "localStorage (update_target i pg) = localStorage pg"
  "setItem_calls (update_target i pg) = setItem_calls pg"
  by (simp_all add: update_target_def Let_def)

lemma update_rental_keeps [simp]:
  "field_value (update_rental i pg) = field_value pg"
  "localStorage (update_rental i pg) = localStorage pg"
  "setItem_calls (update_rental i pg) = setItem_calls pg"
  by (simp_all add: update_rental_def Let_def)

lemma update_negotiation_keeps [simp]:
  "field_value (update_negotiation i pg) = field_value pg"
  "localStorage (update_negotiation i pg) = localStorage pg"
  "setItem_calls (update_negotiation i pg) = setItem_calls pg"
  by (simp_all add: update_negotiation_def Let_def)

lemma calculate_valid:
  assumes "\<not> validation_fails (read_inputs parseFloat parseInt10 pg)"
  shows "calculate parseFloat parseInt10 pg =
     saveData (update_negotiation (read_inputs parseFloat parseInt10 pg)
       (update_rental (read_inputs parseFloat parseInt10 pg)
         (update_permanent (read_inputs parseFloat parseInt10 pg) (pg\<lparr>error_display := ''none''\<rparr>))))"
  using assms by (simp add: calculate_def Let_def)

lemma distinct_inputIds: "distinct inputIds"
  by (simp add: inputIds_def)

lemma read_boundary_page:
  "read_inputs example_parse example_parse boundary_page = boundary_inputs"
  by (simp add: read_inputs_def boundary_page_def boundary_inputs_def example_parse_def js_ops
      double_range_ordinary)

lemma read_no_rent_page:
  "read_inputs example_parse example_parse no_rent_page = boundary_inputs\<lparr>loyer := Fin 0\<rparr>"
  by (simp add: read_inputs_def no_rent_page_def boundary_page_def boundary_inputs_def
      example_parse_def js_ops double_range_ordinary)

text \<open>
  Claim C8. After a computation on a vector that passes the validation the store has
  been written exactly once: \<open>saveData\<close> has called \<open>setItem\<close> once for each of the
  eight input ids, in order, with the value of the field, and no other key has
  changed. When the validation fails, no \<open>setItem\<close> is called and the store is
  unchanged.
\<close>

theorem storage_written_once_iff_valid:
  "(\<not> validation_fails (read_inputs parseFloat parseInt10 pg) \<longrightarrow>
      setItem_calls (calculate parseFloat parseInt10 pg) =
        setItem_calls pg @ map (\<lambda>k. (k, field_value pg k)) inputIds \<and>
      (\<forall>k. localStorage (calculate parseFloat parseInt10 pg) k =
        (if k \<in> set inputIds then Some (field_value pg k) else localStorage pg k))) \<and>
   (validation_fails (read_inputs parseFloat parseInt10 pg) \<longrightarrow>
      setItem_calls (calculate parseFloat parseInt10 pg) = setItem_calls pg \<and>
      localStorage (calculate parseFloat parseInt10 pg) = localStorage pg) \<and>
   distinct inputIds"
proof (intro conjI impI)
  assume v: "\<not> validation_fails (read_inputs parseFloat parseInt10 pg)"
  show "setItem_calls (calculate parseFloat parseInt10 pg) =
        setItem_calls pg @ map (\<lambda>k. (k, field_value pg k)) inputIds"
    by (simp add: calculate_valid[OF v] saveData_eq)
  show "\<forall>k. localStorage (calculate parseFloat parseInt10 pg) k =
        (if k \<in> set inputIds then Some (field_value pg k) else localStorage pg k)"
    by (simp add: calculate_valid[OF v] saveData_eq)
next
  assume f: "validation_fails (read_inputs parseFloat parseInt10 pg)"
  then show "setItem_calls (calculate parseFloat parseInt10 pg) = setItem_calls pg"
    by (simp add: calculate_def Let_def show_invalid_def)
  from f show "localStorage (calculate parseFloat parseInt10 pg) = localStorage pg"
    by (simp add: calculate_def Let_def show_invalid_def)
next
  show "distinct inputIds" by (rule distinct_inputIds)
qed

theorem storage_written_once_iff_valid_witness:
  "\<not> validation_fails (read_inputs example_parse example_parse boundary_page) \<and>
   setItem_calls (calculate example_parse example_parse boundary_page) =
     [(''prix'', ''100''), (''loyer'', ''200''), (''taux'', ''1200''), (''duree'', ''1''),
      (''salaire'', ''0''), (''mensualiteActuel'', ''0''), (''endettementMax'', ''100''),
      (''loyerPrisEnCompte'', ''100'')] \<and>
   validation_fails (read_inputs example_parse example_parse blank_page) \<and>
   setItem_calls (calculate example_parse example_parse blank_page) = [] \<and>
   localStorage (calculate example_parse example_parse blank_page) = Map.empty"
proof -
  have ok: "\<not> validation_fails (read_inputs example_parse example_parse boundary_page)"
    unfolding read_boundary_page
    by (simp add: boundary_inputs_def validation_fails_def js_ops)
  have bad: "validation_fails (read_inputs example_parse example_parse blank_page)"
    by (simp add: read_inputs_def validation_fails_def blank_page_def example_parse_def)
  have b: "setItem_calls blank_page = []" "localStorage blank_page = Map.empty"
    by (simp_all add: blank_page_def)
  have c: "setItem_calls boundary_page @ map (\<lambda>k. (k, field_value boundary_page k)) inputIds =
     [(''prix'', ''100''), (''loyer'', ''200''), (''taux'', ''1200''), (''duree'', ''1''),
      (''salaire'', ''0''), (''mensualiteActuel'', ''0''), (''endettementMax'', ''100''),
      (''loyerPrisEnCompte'', ''100'')]"
    by (simp add: boundary_page_def inputIds_def)
  show ?thesis
    using storage_written_once_iff_valid [of example_parse example_parse boundary_page]
      storage_written_once_iff_valid [of example_parse example_parse blank_page] ok bad b c
    by simp
qed

section \<open>Visibility\<close>

lemma display_saveData [simp]: "display (saveData pg) = display pg"
  by (simp add: saveData_eq)

lemma display_update_negotiation:
  "display (update_negotiation i pg) reductionResults =
     (if isNegotiationRequired i then ''block'' else ''none'')"
  "display (update_negotiation i pg) itemPrixCible = display pg itemPrixCible"
  by (simp_all add: update_negotiation_def Let_def)

lemma display_update_rental:
  "isRentalProject i \<Longrightarrow> display (update_rental i pg) itemPrixCible =
     (if shouldShowTargetPrice i then ''flex'' else ''none'')"
  by (simp add: update_rental_def update_target_def Let_def)

lemma boundary_inputs_values:
  "spec_Valid boundary_inputs"
  "prixAcceptable boundary_inputs = Fin 100"
  "prixCibleRendement boundary_inputs = Fin 100"
proof -
  show v: "spec_Valid boundary_inputs"
    by (simp add: spec_Valid_def boundary_inputs_def js_ops)
  have f: "tauxAnnuel boundary_inputs = Fin 1200" "nbMensualites boundary_inputs = Fin 1"
    "prix boundary_inputs = Fin 100" "loyer boundary_inputs = Fin 200"
    "salaire boundary_inputs = Fin 0" "mensualiteActuel boundary_inputs = Fin 0"
    "endettementMax boundary_inputs = Fin 1"
    by (simp_all add: boundary_inputs_def)
  have tm: "tauxMensuel boundary_inputs = Fin 1"
    using f by (simp add: tauxMensuel_def js_ops double_range_ordinary)
  have base: "Fin 1 + tauxMensuel boundary_inputs = Fin 2"
    by (simp add: tm js_ops double_range_ordinary)
  have pf: "facteurPMT boundary_inputs = Fin 2"
    unfolding facteurPMT_def base f pow_2_1
    by (simp add: tm js_ops double_range_ordinary)
  have neg: "- nbMensualites boundary_inputs = Fin (- 1)"
    using f by (simp add: js_ops)
  have p1: "part1 boundary_inputs = Fin (1 / 2)"
    unfolding part1_def base neg pow_2_m1
    by (simp add: tm js_ops double_range_ordinary)
  show "prixAcceptable boundary_inputs = Fin 100"
    using pf f
    by (simp add: prixAcceptable_def mensualiteCible_def denominateurDette_def js_ops
        double_range_ordinary)
  have rs: "rendementSouhaite boundary_inputs = Fin 2400"
    using p1 f by (simp add: rendementSouhaite_def js_ops double_range_ordinary)
  show "prixCibleRendement boundary_inputs = Fin 100"
    using rs f by (simp add: prixCibleRendement_def js_ops double_range_ordinary)
qed

text \<open>
  Claim C5. For every vector that passes the validation,
  \<open>isNegotiationRequired = (price > acceptablePrice)\<close>, so it is false when the price
  equals the acceptable price; the target price is shown exactly when
  \<open>rent > 0\<close> and \<open>price >= targetPrice\<close> (\<open>shouldShowTargetPrice\<close> is evaluated
  inside the rental branch only), so it is shown when \<open>rent > 0\<close> and the price
  equals the target price. The containers follow: after \<open>calculate\<close> the negotiation
  block is displayed exactly when \<open>price > acceptablePrice\<close>, and for \<open>rent > 0\<close> the
  target-price item is displayed exactly when \<open>price >= targetPrice\<close>.
\<close>

theorem visibility_boundaries:
  "(\<not> validation_fails i \<longrightarrow>
      isNegotiationRequired i = (prix i > prixAcceptable i) \<and>
      (prix i = prixAcceptable i \<longrightarrow> \<not> isNegotiationRequired i) \<and>
      (isRentalProject i \<and> shouldShowTargetPrice i) =
        (loyer i > Fin 0 \<and> prix i \<ge> prixCibleRendement i) \<and>
      (loyer i > Fin 0 \<and> prix i = prixCibleRendement i
         \<longrightarrow> isRentalProject i \<and> shouldShowTargetPrice i)) \<and>
   (\<not> validation_fails i \<and> i = read_inputs parseFloat parseInt10 pg \<longrightarrow>
      display (calculate parseFloat parseInt10 pg) reductionResults =
        (if prix i > prixAcceptable i then ''block'' else ''none'') \<and>
      (loyer i > Fin 0 \<longrightarrow>
         display (calculate parseFloat parseInt10 pg) itemPrixCible =
           (if prix i \<ge> prixCibleRendement i then ''flex'' else ''none'')))"
proof (intro conjI impI)
  show "isNegotiationRequired i = (prix i > prixAcceptable i)"
    by (simp add: isNegotiationRequired_def)
  show "(isRentalProject i \<and> shouldShowTargetPrice i) =
        (loyer i > Fin 0 \<and> prix i \<ge> prixCibleRendement i)"
    by (simp add: isRentalProject_def shouldShowTargetPrice_def)
next
  assume "prix i = prixAcceptable i"
  then show "\<not> isNegotiationRequired i"
    by (simp add: isNegotiationRequired_def js_lt_irrefl)
next
  assume v: "\<not> validation_fails i" and h: "loyer i > Fin 0 \<and> prix i = prixCibleRendement i"
  from v have "\<not> isNaN (prix i)" by (simp add: validation_passes_iff)
  then have "prix i \<ge> prix i" by (rule js_le_refl)
  with h show "isRentalProject i" "shouldShowTargetPrice i"
    by (simp_all add: isRentalProject_def shouldShowTargetPrice_def)
next
  assume h: "\<not> validation_fails i \<and> i = read_inputs parseFloat parseInt10 pg"
  then have e: "read_inputs parseFloat parseInt10 pg = i"
    and v: "\<not> validation_fails (read_inputs parseFloat parseInt10 pg)"
    by blast+
  have c: "calculate parseFloat parseInt10 pg =
      saveData (update_negotiation i (update_rental i (update_permanent i (pg\<lparr>error_display := ''none''\<rparr>))))"
    using calculate_valid[OF v] by (simp only: e)
  show "display (calculate parseFloat parseInt10 pg) reductionResults =
        (if prix i > prixAcceptable i then ''block'' else ''none'')"
    by (simp add: c display_update_negotiation isNegotiationRequired_def)
  assume "loyer i > Fin 0"
  then have "isRentalProject i" by (simp add: isRentalProject_def)
  then show "display (calculate parseFloat parseInt10 pg) itemPrixCible =
           (if prix i \<ge> prixCibleRendement i then ''flex'' else ''none'')"
    by (simp add: c display_update_negotiation display_update_rental shouldShowTargetPrice_def)
qed

theorem visibility_boundaries_witness:
  "\<not> validation_fails boundary_inputs \<and>
   boundary_inputs = read_inputs example_parse example_parse boundary_page \<and>
   prix boundary_inputs = prixAcceptable boundary_inputs \<and>
   loyer boundary_inputs > Fin 0 \<and>
   prix boundary_inputs = prixCibleRendement boundary_inputs \<and>
   \<not> isNegotiationRequired boundary_inputs \<and>
   isRentalProject boundary_inputs \<and> shouldShowTargetPrice boundary_inputs \<and>
   display (calculate example_parse example_parse boundary_page) reductionResults = ''none'' \<and>
   display (calculate example_parse example_parse boundary_page) itemPrixCible = ''flex''"
proof -
  have ok: "\<not> validation_fails boundary_inputs"
    using boundary_inputs_values(1) by (rule spec_Valid_passes)
  have p: "prix boundary_inputs = Fin 100" "loyer boundary_inputs > Fin 0"
    by (simp_all add: boundary_inputs_def js_ops)
  have ge: "prix boundary_inputs \<ge> prixCibleRendement boundary_inputs"
    "\<not> prix boundary_inputs > prixAcceptable boundary_inputs"
    using p boundary_inputs_values by (simp_all add: js_ops)
  show ?thesis
    using visibility_boundaries [of boundary_inputs example_parse example_parse boundary_page]
      ok p ge boundary_inputs_values(2,3) read_boundary_page
    by simp
qed

text \<open>
  Claim C10. For every vector that passes the validation and whose acceptable monthly
  payment \<open>maxDebtRatio * (rent + income) - currentMonthlyDebt\<close> is not strictly
  positive, the acceptable price is 0 and, the price being positive, a negotiation
  is required.
\<close>

theorem no_capacity_means_negotiation:
  "\<not> validation_fails i \<and> \<not> (mensualiteCible i > Fin 0) \<longrightarrow>
     mensualiteCible i = endettementMax i * (loyer i + salaire i) - mensualiteActuel i \<and>
     prixAcceptable i = Fin 0 \<and> isNegotiationRequired i"
proof (intro impI)
  assume h: "\<not> validation_fails i \<and> \<not> (mensualiteCible i > Fin 0)"
  then have p: "prix i > Fin 0" by (simp add: valid_prix_pos)
  from h have a: "prixAcceptable i = Fin 0" by (simp add: prixAcceptable_def)
  show "mensualiteCible i = endettementMax i * (loyer i + salaire i) - mensualiteActuel i \<and>
     prixAcceptable i = Fin 0 \<and> isNegotiationRequired i"
    using p a by (simp add: mensualiteCible_def denominateurDette_def isNegotiationRequired_def)
qed

theorem no_capacity_means_negotiation_witness:
  "\<not> validation_fails (scenario\<lparr>mensualiteActuel := Fin 5000\<rparr>) \<and>
   \<not> (mensualiteCible (scenario\<lparr>mensualiteActuel := Fin 5000\<rparr>) > Fin 0) \<and>
   prixAcceptable (scenario\<lparr>mensualiteActuel := Fin 5000\<rparr>) = Fin 0 \<and>
   isNegotiationRequired (scenario\<lparr>mensualiteActuel := Fin 5000\<rparr>)"
proof -
  have ok: "\<not> validation_fails (scenario\<lparr>mensualiteActuel := Fin 5000\<rparr>)"
    by (simp add: scenario_def validation_fails_def js_ops)
  have c: "\<not> (mensualiteCible (scenario\<lparr>mensualiteActuel := Fin 5000\<rparr>) > Fin 0)"
    by (simp add: scenario_def mensualiteCible_def denominateurDette_def js_ops
        double_range_ordinary)
  show ?thesis
    using no_capacity_means_negotiation [of "scenario\<lparr>mensualiteActuel := Fin 5000\<rparr>"] ok c
    by blast
qed

section \<open>The loan of the scenario\<close>

text \<open>The loan of the scenario: rate 3.5, 240 months, price 200000.\<close>

lemma scenario_loan:
  assumes "prix i = Fin 200000" "tauxAnnuel i = Fin 3.5" "nbMensualites i = Fin 240"
  shows "\<exists>m. mensualiteProjet i = Fin m \<and> 0 < m"
    and "\<exists>w. part1 i = Fin w \<and> 0 < w"
proof -
  define r :: real where "r = 7 / 2400"
  define q :: real where "q = 1 + r"
  define Q :: real where "Q = q ^ 240"
  have r: "1 / 2 ^ 9 \<le> r" "r \<le> 1" "0 < r" by (simp_all add: r_def)
  have q: "1 < q" "q \<le> 2" "q - 1 = r" "q \<noteq> 0" by (simp_all add: q_def r_def)
  have tm: "tauxMensuel i = Fin r"
    using assms by (simp add: tauxMensuel_def js_ops double_range_ordinary r_def)
  have base: "Fin 1 + tauxMensuel i = Fin q"
    unfolding tm by (simp add: js_ops double_range_ordinary q_def r_def)
  have Q1: "q \<le> Q"
    unfolding Q_def using power_increasing[of 1 240 q] q by simp
  have Q2: "Q \<le> 2 ^ 240"
    unfolding Q_def using q by (intro power_mono) simp_all
  have Qpos: "0 < Q" "1 < Q" using Q1 q by linarith+
  have pw: "Math_pow (Fin 1 + tauxMensuel i) (nbMensualites i) = Fin Q"
  proof -
    have "Math_pow (Fin q) (Fin (of_int 240)) = double_range (q powi 240)"
      using q by (intro Math_pow_int) simp_all
    moreover have "q powi 240 = Q" by (simp add: Q_def)
    moreover have "double_range Q = Fin Q"
      using Qpos Q2 by (intro double_range_between[of 0 _ 240]) simp_all
    ultimately show ?thesis using assms base by simp
  qed
  have num: "tauxMensuel i * Fin Q = Fin (r * Q)"
  proof -
    have "1 / 2 ^ 9 \<le> r * Q" using r Qpos mult_mono[of "1 / 2 ^ 9" r 1 Q] by simp
    moreover have "r * Q \<le> 2 ^ 240" using r Q2 Qpos mult_mono[of r 1 Q "2 ^ 240"] by simp
    ultimately have "double_range (r * Q) = Fin (r * Q)"
      by (intro double_range_between[of 9 _ 240]) simp_all
    then show ?thesis by (simp add: tm js_ops)
  qed
  have den: "Fin Q - Fin 1 = Fin (Q - 1)"
  proof -
    have "1 / 2 ^ 9 \<le> Q - 1" using Q1 q r by linarith
    moreover have "Q - 1 \<le> 2 ^ 240" using Q2 by linarith
    ultimately have "double_range (Q - 1) = Fin (Q - 1)"
      by (intro double_range_between[of 9 _ 240]) simp_all
    then show ?thesis using Qpos by (simp add: js_ops)
  qed
  define f where "f = r * Q / (Q - 1)"
  have dpos: "0 < Q - 1" "r \<le> Q - 1" using Q1 q by linarith+
  have f1: "r \<le> f"
  proof -
    have "r * (Q - 1) \<le> r * Q" using r by (intro mult_left_mono) simp_all
    then show ?thesis unfolding f_def using dpos by (simp add: pos_le_divide_eq)
  qed
  have f2: "f \<le> 2 ^ 240"
  proof -
    have "r * Q \<le> (Q - 1) * Q" using dpos Qpos by (intro mult_right_mono) simp_all
    then have "f \<le> Q" unfolding f_def using dpos by (simp add: pos_divide_le_eq mult.commute)
    with Q2 show ?thesis by linarith
  qed
  have fact: "facteurPMT i = Fin f"
  proof -
    have "double_range f = Fin f"
      using f1 f2 r by (intro double_range_between[of 9 _ 240]) simp_all
    moreover have "facteurPMT i = Fin (r * Q) / Fin (Q - 1)"
      by (simp only: facteurPMT_def pw num den)
    ultimately show ?thesis
      using dpos by (simp add: js_ops f_def)
  qed
  have fpos: "0 < f" using f1 r by linarith
  have m: "mensualiteProjet i = Fin (200000 * f)"
  proof -
    have "1 / 2 ^ 9 \<le> 200000 * f" using f1 r by linarith
    moreover have "200000 * f \<le> 2 ^ 18 * 2 ^ 240"
      using f2 fpos by (intro mult_mono) simp_all
    then have "200000 * f \<le> 2 ^ 258" by (simp only: power_add[symmetric]) simp
    ultimately have "double_range (200000 * f) = Fin (200000 * f)"
      by (intro double_range_between[of 9 _ 258]) simp_all
    then show ?thesis using assms by (simp add: mensualiteProjet_def fact js_ops)
  qed
  show "\<exists>m. mensualiteProjet i = Fin m \<and> 0 < m" using m fpos by simp
  have npw: "Math_pow (Fin 1 + tauxMensuel i) (- nbMensualites i) = Fin (1 / Q)"
  proof -
    have "Math_pow (Fin q) (Fin (of_int (- 240))) = double_range (q powi (- 240))"
      using q by (intro Math_pow_int) simp_all
    moreover have "q powi (- 240) = 1 / Q" by (simp add: Q_def power_int_minus field_simps)
    moreover have "double_range (1 / Q) = Fin (1 / Q)"
    proof (rule double_range_between[of 240 _ 0])
      show "1 / 2 ^ 240 \<le> 1 / Q" using Q2 Qpos by (intro divide_left_mono) simp_all
      show "1 / Q \<le> 2 ^ 0" using Qpos by simp
    qed simp_all
    ultimately show ?thesis using assms base by (simp add: js_ops)
  qed
  define d where "d = 1 - 1 / Q"
  have d1: "1 / 2 ^ 10 \<le> d"
  proof -
    have "1 / Q \<le> 1 / q" using Q1 q by (intro divide_left_mono) simp_all
    moreover have "1 - 1 / q = r / q" using q by (simp add: field_simps)
    moreover have "r / 2 \<le> r / q" using q r by (intro divide_left_mono) simp_all
    moreover have "1 / 2 ^ 10 \<le> r / 2" using r by simp
    ultimately show ?thesis unfolding d_def by linarith
  qed
  have d2: "d \<le> 1" unfolding d_def using Qpos by simp
  have sub: "Fin 1 - Fin (1 / Q) = Fin d"
  proof -
    have "double_range d = Fin d"
      using d1 d2 by (intro double_range_between[of 10 _ 0]) simp_all
    then show ?thesis using Qpos by (simp add: js_ops d_def)
  qed
  have w1: "1 / 2 ^ 10 \<le> d / r"
  proof -
    have "d \<le> d / r" using r d1 by (simp add: pos_le_divide_eq mult_left_le)
    with d1 show ?thesis by linarith
  qed
  have w2: "d / r \<le> 2 ^ 9"
  proof -
    have "d / r \<le> 1 / r" using d2 r by (intro divide_right_mono) simp_all
    moreover have "1 / r \<le> 2 ^ 9" by (simp add: r_def)
    ultimately show ?thesis by linarith
  qed
  have "double_range (d / r) = Fin (d / r)"
    using w1 w2 by (intro double_range_between[of 10 _ 9]) simp_all
  moreover have "part1 i = Fin d / Fin r"
    by (simp only: part1_def npw sub, simp only: tm)
  ultimately have "part1 i = Fin (d / r)"
    using r by (simp add: js_ops)
  moreover have "0 < d / r" using w1 by (simp add: order_less_le_trans[of 0 "1 / 2 ^ 10"])
  ultimately show "\<exists>w. part1 i = Fin w \<and> 0 < w" by blast
qed

section \<open>A project without rent\<close>

lemma rental_outputs_untouched:
  assumes "\<not> validation_fails (read_inputs parseFloat parseInt10 pg)"
    and "\<not> isRentalProject (read_inputs parseFloat parseInt10 pg)"
  shows "display (calculate parseFloat parseInt10 pg) locatifResults = ''none''"
    "display (calculate parseFloat parseInt10 pg) locatifResults2 = ''none''"
    "display (calculate parseFloat parseInt10 pg) locatifResults3 = ''none''"
    "display (calculate parseFloat parseInt10 pg) locatifResults4 = ''none''"
    "display (calculate parseFloat parseInt10 pg) itemPrixCible = display pg itemPrixCible"
    "display (calculate parseFloat parseInt10 pg) itemReductionCible =
       display pg itemReductionCible"
    "textContent (calculate parseFloat parseInt10 pg) out_cashflow = textContent pg out_cashflow"
    "textContent (calculate parseFloat parseInt10 pg) out_endettementProjetSeul =
       textContent pg out_endettementProjetSeul"
    "textContent (calculate parseFloat parseInt10 pg) out_rendement = textContent pg out_rendement"
    "textContent (calculate parseFloat parseInt10 pg) out_rendementSouhaite =
       textContent pg out_rendementSouhaite"
    "textContent (calculate parseFloat parseInt10 pg) out_capaciteLocative =
       textContent pg out_capaciteLocative"
    "textContent (calculate parseFloat parseInt10 pg) out_prixCible = textContent pg out_prixCible"
    "textContent (calculate parseFloat parseInt10 pg) out_reductionCible =
       textContent pg out_reductionCible"
    "className (calculate parseFloat parseInt10 pg) out_cashflow = className pg out_cashflow"
  using assms(2)
  by (simp_all add: calculate_valid[OF assms(1)] saveData_eq update_negotiation_def
      update_rental_def update_permanent_def Let_def)

lemma minus_from_zero: "Fin 0 - x = - x"
  by (cases x) (simp_all add: js_ops)

lemma zero_rent_numbers:
  assumes "spec_Valid i" "loyer i = Fin 0"
  shows "\<not> isRentalProject i \<and> rendementBrut i = Fin 0 \<and> prixCibleRendement i = Fin 0 \<and>
     reductionCible i = Fin 100 \<and> cashflow i = - mensualiteProjet i"
proof -
  from assms(1) obtain s m p l a n e c where f: "prix i = Fin p" and pos: "0 < p"
    by (rule spec_Valid_cases)
  have t: "prixCibleRendement i = Fin 0"
    using assms(2) by (simp add: prixCibleRendement_def js_ops)
  have "\<not> isRentalProject i" using assms(2) by (simp add: isRentalProject_def js_ops)
  moreover have "rendementBrut i = Fin 0"
    using assms(2) by (simp add: rendementBrut_def rendementBrut_at_def js_ops)
  moreover have "reductionCible i = Fin 100"
    using f pos t by (simp add: reductionCible_def js_ops double_range_ordinary)
  moreover have "cashflow i = - mensualiteProjet i"
    using assms(2) by (simp add: cashflow_def minus_from_zero)
  ultimately show ?thesis using t by simp
qed

lemma spec_Valid_no_rent: "spec_Valid (scenario\<lparr>loyer := Fin 0\<rparr>)"
  by (simp add: spec_Valid_def scenario_def js_ops)

text \<open>
  Claim C3, as amended. For every Valid input vector with the rent 0,
  \<open>isRentalProject\<close> is false, the gross yield and the target price are 0, the cash
  flow is 0 minus the monthly payment, and the target reduction \<open>reductionCible\<close> is
  100 percent. None of them is presented: \<open>calculate\<close> hides the four rental
  containers, and leaves the display of the two target items, the texts of the five
  rental outputs and of the two target outputs, and the class of the cash flow as
  they were.
\<close>

theorem zero_rent_values:
  "(spec_Valid i \<and> loyer i = Fin 0 \<longrightarrow>
     \<not> isRentalProject i \<and> rendementBrut i = Fin 0 \<and> prixCibleRendement i = Fin 0 \<and>
     reductionCible i = Fin 100 \<and> cashflow i = - mensualiteProjet i) \<and>
   (spec_Valid i \<and> loyer i = Fin 0 \<and> read_inputs parseFloat parseInt10 pg = i \<longrightarrow>
     display (calculate parseFloat parseInt10 pg) locatifResults = ''none'' \<and>
     display (calculate parseFloat parseInt10 pg) locatifResults2 = ''none'' \<and>
     display (calculate parseFloat parseInt10 pg) locatifResults3 = ''none'' \<and>
     display (calculate parseFloat parseInt10 pg) locatifResults4 = ''none'' \<and>
     display (calculate parseFloat parseInt10 pg) itemPrixCible = display pg itemPrixCible \<and>
     display (calculate parseFloat parseInt10 pg) itemReductionCible =
       display pg itemReductionCible \<and>
     textContent (calculate parseFloat parseInt10 pg) out_cashflow = textContent pg out_cashflow \<and>
     textContent (calculate parseFloat parseInt10 pg) out_endettementProjetSeul =
       textContent pg out_endettementProjetSeul \<and>
     textContent (calculate parseFloat parseInt10 pg) out_rendement =
       textContent pg out_rendement \<and>
     textContent (calculate parseFloat parseInt10 pg) out_rendementSouhaite =
       textContent pg out_rendementSouhaite \<and>
     textContent (calculate parseFloat parseInt10 pg) out_capaciteLocative =
       textContent pg out_capaciteLocative \<and>
     textContent (calculate parseFloat parseInt10 pg) out_prixCible =
       textContent pg out_prixCible \<and>
     textContent (calculate parseFloat parseInt10 pg) out_reductionCible =
       textContent pg out_reductionCible \<and>
     className (calculate parseFloat parseInt10 pg) out_cashflow = className pg out_cashflow)"
proof (intro conjI impI)
  assume h: "spec_Valid i \<and> loyer i = Fin 0 \<and> read_inputs parseFloat parseInt10 pg = i"
  then have e: "read_inputs parseFloat parseInt10 pg = i" by blast
  from h have v: "\<not> validation_fails (read_inputs parseFloat parseInt10 pg)"
    unfolding e by (simp add: spec_Valid_passes)
  from h have r: "\<not> isRentalProject (read_inputs parseFloat parseInt10 pg)"
    unfolding e by (simp add: isRentalProject_def js_ops)
  note u = rental_outputs_untouched[OF v r]
  show "display (calculate parseFloat parseInt10 pg) locatifResults = ''none''" by (rule u)
  show "display (calculate parseFloat parseInt10 pg) locatifResults2 = ''none''" by (rule u)
  show "display (calculate parseFloat parseInt10 pg) locatifResults3 = ''none''" by (rule u)
  show "display (calculate parseFloat parseInt10 pg) locatifResults4 = ''none''" by (rule u)
  show "display (calculate parseFloat parseInt10 pg) itemPrixCible = display pg itemPrixCible"
    by (rule u)
  show "display (calculate parseFloat parseInt10 pg) itemReductionCible =
       display pg itemReductionCible" by (rule u)
  show "textContent (calculate parseFloat parseInt10 pg) out_cashflow = textContent pg out_cashflow"
    by (rule u)
  show "textContent (calculate parseFloat parseInt10 pg) out_endettementProjetSeul =
       textContent pg out_endettementProjetSeul" by (rule u)
  show "textContent (calculate parseFloat parseInt10 pg) out_rendement =
       textContent pg out_rendement" by (rule u)
  show "textContent (calculate parseFloat parseInt10 pg) out_rendementSouhaite =
       textContent pg out_rendementSouhaite" by (rule u)
  show "textContent (calculate parseFloat parseInt10 pg) out_capaciteLocative =
       textContent pg out_capaciteLocative" by (rule u)
  show "textContent (calculate parseFloat parseInt10 pg) out_prixCible =
       textContent pg out_prixCible" by (rule u)
  show "textContent (calculate parseFloat parseInt10 pg) out_reductionCible =
       textContent pg out_reductionCible" by (rule u)
  show "className (calculate parseFloat parseInt10 pg) out_cashflow = className pg out_cashflow"
    by (rule u)
qed (use zero_rent_numbers[of i] in blast)+

theorem zero_rent_values_witness:
  "spec_Valid (boundary_inputs\<lparr>loyer := Fin 0\<rparr>) \<and>
   loyer (boundary_inputs\<lparr>loyer := Fin 0\<rparr>) = Fin 0 \<and>
   read_inputs example_parse example_parse no_rent_page = boundary_inputs\<lparr>loyer := Fin 0\<rparr> \<and>
   \<not> isRentalProject (boundary_inputs\<lparr>loyer := Fin 0\<rparr>) \<and>
   rendementBrut (boundary_inputs\<lparr>loyer := Fin 0\<rparr>) = Fin 0 \<and>
   prixCibleRendement (boundary_inputs\<lparr>loyer := Fin 0\<rparr>) = Fin 0 \<and>
   reductionCible (boundary_inputs\<lparr>loyer := Fin 0\<rparr>) = Fin 100 \<and>
   cashflow (boundary_inputs\<lparr>loyer := Fin 0\<rparr>) =
     - mensualiteProjet (boundary_inputs\<lparr>loyer := Fin 0\<rparr>) \<and>
   display (calculate example_parse example_parse no_rent_page) locatifResults = ''none'' \<and>
   textContent (calculate example_parse example_parse no_rent_page) out_prixCible =
     textContent no_rent_page out_prixCible"
proof -
  have v: "spec_Valid (boundary_inputs\<lparr>loyer := Fin 0\<rparr>)"
    by (simp add: spec_Valid_def boundary_inputs_def js_ops)
  have l: "loyer (boundary_inputs\<lparr>loyer := Fin 0\<rparr>) = Fin 0" by simp
  show ?thesis
    using zero_rent_values
      [of "boundary_inputs\<lparr>loyer := Fin 0\<rparr>" example_parse example_parse no_rent_page]
      v l read_no_rent_page
    by blast
qed

text \<open>
  Claim C3 as stated fails: in the specification's scenario with the rent 0 the
  target reduction is 100, not 0, and the cash flow is negative, not 0.
\<close>

theorem zero_rent_not_all_zero:
  "spec_Valid (scenario\<lparr>loyer := Fin 0\<rparr>) \<and> loyer (scenario\<lparr>loyer := Fin 0\<rparr>) = Fin 0 \<and>
   reductionCible (scenario\<lparr>loyer := Fin 0\<rparr>) = Fin 100 \<and>
   cashflow (scenario\<lparr>loyer := Fin 0\<rparr>) < Fin 0 \<and>
   cashflow (scenario\<lparr>loyer := Fin 0\<rparr>) \<noteq> Fin 0"
proof -
  let ?i = "scenario\<lparr>loyer := Fin 0\<rparr>"
  have f: "prix ?i = Fin 200000" "tauxAnnuel ?i = Fin 3.5" "nbMensualites ?i = Fin 240"
    by (simp_all add: scenario_def)
  from scenario_loan(1)[OF f] obtain m where m: "mensualiteProjet ?i = Fin m" and pos: "0 < m"
    by blast
  have l: "loyer ?i = Fin 0" by simp
  have t: "prixCibleRendement ?i = Fin 0"
    by (simp add: prixCibleRendement_def js_ops)
  have r: "reductionCible ?i = Fin 100"
    using f t by (simp add: reductionCible_def js_ops double_range_ordinary)
  have c: "cashflow ?i = Fin (- m)"
    unfolding cashflow_def l m using pos by (simp add: js_ops)
  show ?thesis using spec_Valid_no_rent r c pos by (simp add: js_ops)
qed

section \<open>The desired yield and the target price\<close>

lemma spec_Valid_zero_ratio: "spec_Valid (scenario\<lparr>endettementMax := Fin 0\<rparr>)"
  by (simp add: spec_Valid_def scenario_def js_ops)

text \<open>
  In the scenario with the debt ratio 0 the divisor of \<open>rendementSouhaite\<close> is 0 and the
  desired yield is \<open>Infinity\<close>.
\<close>

lemma rendementSouhaite_zero_ratio:
  "endettementMax (scenario\<lparr>endettementMax := Fin 0\<rparr>) *
     part1 (scenario\<lparr>endettementMax := Fin 0\<rparr>) = Fin 0"
  "rendementSouhaite (scenario\<lparr>endettementMax := Fin 0\<rparr>) = PInf"
proof -
  let ?i = "scenario\<lparr>endettementMax := Fin 0\<rparr>"
  have f: "prix ?i = Fin 200000" "tauxAnnuel ?i = Fin 3.5" "nbMensualites ?i = Fin 240"
    by (simp_all add: scenario_def)
  from scenario_loan(2)[OF f] obtain w where w: "part1 ?i = Fin w" by blast
  have e: "endettementMax ?i = Fin 0" by simp
  show z: "endettementMax ?i * part1 ?i = Fin 0"
    unfolding w e by (simp add: js_ops)
  show "rendementSouhaite ?i = PInf"
    unfolding rendementSouhaite_def z by (simp add: js_ops)
qed

text \<open>
  Claim C4 says that on a Valid vector every division has a nonzero divisor or is
  replaced by a fallback. The code at the specification's scenario with the debt ratio
  0, a Valid vector that passes the validation: the divisor
  \<open>endettementMax * part1\<close> of \<open>rendementSouhaite\<close> is 0, no fallback is taken, and
  the desired yield is \<open>Infinity\<close>.
\<close>

theorem zero_debt_ratio_divides_by_zero:
  "spec_Valid (scenario\<lparr>endettementMax := Fin 0\<rparr>) \<and>
   \<not> validation_fails (scenario\<lparr>endettementMax := Fin 0\<rparr>) \<and>
   endettementMax (scenario\<lparr>endettementMax := Fin 0\<rparr>) * part1 (scenario\<lparr>endettementMax := Fin 0\<rparr>)
     = Fin 0 \<and>
   rendementSouhaite (scenario\<lparr>endettementMax := Fin 0\<rparr>) = PInf"
  using spec_Valid_zero_ratio spec_Valid_passes[OF spec_Valid_zero_ratio]
    rendementSouhaite_zero_ratio
  by simp

text \<open>
  Claim C7 says that on a Valid vector with a positive rent and a positive desired
  yield the gross yield at the target price is the desired yield. The code at the
  specification's scenario with the debt ratio 0: the rent is positive, the desired
  yield is \<open>Infinity\<close>, which is positive, the target price is 0, and the gross
  yield at the price 0 is the fallback 0, not the desired yield.
\<close>

theorem infinite_yield_target_price:
  "spec_Valid (scenario\<lparr>endettementMax := Fin 0\<rparr>) \<and>
   loyer (scenario\<lparr>endettementMax := Fin 0\<rparr>) > Fin 0 \<and>
   rendementSouhaite (scenario\<lparr>endettementMax := Fin 0\<rparr>) > Fin 0 \<and>
   rendementSouhaite (scenario\<lparr>endettementMax := Fin 0\<rparr>) = PInf \<and>
   prixCibleRendement (scenario\<lparr>endettementMax := Fin 0\<rparr>) = Fin 0 \<and>
   rendementBrut_at (prixCibleRendement (scenario\<lparr>endettementMax := Fin 0\<rparr>))
     (loyer (scenario\<lparr>endettementMax := Fin 0\<rparr>)) = Fin 0"
proof -
  let ?i = "scenario\<lparr>endettementMax := Fin 0\<rparr>"
  have rs: "rendementSouhaite ?i = PInf"
    by (rule rendementSouhaite_zero_ratio(2))
  have l: "loyer ?i = Fin 800" by (simp add: scenario_def)
  have t: "prixCibleRendement ?i = Fin 0"
    using rs l by (simp add: prixCibleRendement_def js_ops double_range_ordinary)
  have g: "rendementBrut_at (prixCibleRendement ?i) (loyer ?i) = Fin 0"
    using t by (simp add: rendementBrut_at_def js_ops)
  show ?thesis using spec_Valid_zero_ratio rs l t g by (simp add: js_ops)
qed

section \<open>A long loan at a high rate\<close>

lemma spec_Valid_overflow: "spec_Valid overflow_inputs"
  by (simp add: spec_Valid_def overflow_inputs_def scenario_def js_ops)

text \<open>
  For 1100 months at the monthly rate 1 the power \<open>2^1100\<close> is \<open>Infinity\<close>, so the
  factor of script.js is \<open>Infinity / Infinity\<close>.
\<close>

lemma overflow_values:
  "Math_pow (Fin 1 + tauxMensuel overflow_inputs) (nbMensualites overflow_inputs) = PInf"
  "facteurPMT overflow_inputs = NaN"
  "mensualiteProjet overflow_inputs = NaN"
proof -
  have f: "tauxAnnuel overflow_inputs = Fin 1200" "nbMensualites overflow_inputs = Fin 1100"
    "prix overflow_inputs = Fin 200000"
    by (simp_all add: overflow_inputs_def scenario_def)
  have tm: "tauxMensuel overflow_inputs = Fin 1"
    using f by (simp add: tauxMensuel_def js_ops double_range_ordinary)
  have base: "Fin 1 + tauxMensuel overflow_inputs = Fin 2"
    by (simp add: tm js_ops double_range_ordinary)
  show pw: "Math_pow (Fin 1 + tauxMensuel overflow_inputs) (nbMensualites overflow_inputs) = PInf"
    unfolding base f by (rule pow_2_1100)
  show pf: "facteurPMT overflow_inputs = NaN"
    unfolding facteurPMT_def pw by (simp add: tm js_ops)
  show "mensualiteProjet overflow_inputs = NaN"
    unfolding mensualiteProjet_def pf f by (simp add: js_ops)
qed

text \<open>
  \<open>calculateMensualiteProjet\<close> on the same loan: \<open>2^-1100\<close> underflows to 0 and the
  payment is the price times the monthly rate, 200000.
\<close>

lemma helper_on_long_loan:
  "calculateMensualiteProjet (Fin 200000) (Fin 1200) (Fin 1100) = Fin 200000"
proof -
  have tm: "Fin 1200 / Fin 1200 = Fin 1" by (simp add: js_ops double_range_ordinary)
  have base: "Fin 1 + Fin 1 = Fin 2" by (simp add: js_ops double_range_ordinary)
  have neg: "- Fin 1100 = Fin (- 1100)" by (simp add: js_ops)
  have "calculateMensualiteProjet (Fin 200000) (Fin 1200) (Fin 1100) =
      Fin 200000 * Fin 1 / (Fin 1 - Math_pow (Fin 2) (Fin (- 1100)))"
    by (simp add: calculateMensualiteProjet_def js_eq_def tm base neg Let_def)
  also have "\<dots> = Fin 200000"
    unfolding pow_2_m1100 by (simp add: js_ops double_range_ordinary)
  finally show ?thesis .
qed

text \<open>The closed form for this loan is a real number between 200000 and 200001.\<close>

lemma closed_form_on_long_loan:
  "200000 \<le> annuity_payment 200000 1200 1100" "annuity_payment 200000 1200 1100 < 200001"
proof -
  define x :: real where "x = 2 powr (- 1100)"
  have pos: "0 < x" by (simp add: x_def)
  have "x = 1 / 2 ^ 1100"
    unfolding x_def by (simp add: powr_minus_divide powr_realpow[symmetric])
  moreover have "(2::real) ^ 18 \<le> 2 ^ 1100" by (rule power_increasing) simp_all
  ultimately have "x \<le> 1 / 2 ^ 18" by (simp add: divide_left_mono)
  then have small: "x < 1 / 200001" by simp
  have a: "annuity_payment 200000 1200 1100 = 200000 / (1 - x)"
    by (simp add: annuity_payment_def x_def)
  have d: "0 < 1 - x" using small by simp
  show "200000 \<le> annuity_payment 200000 1200 1100"
    unfolding a using d pos by (simp add: pos_le_divide_eq)
  show "annuity_payment 200000 1200 1100 < 200001"
    unfolding a using d small by (simp add: pos_divide_less_eq)
qed

text \<open>
  Claim C1 says that on every Valid vector with a positive rate the monthly payment is
  the closed-form annuity value. The code at the scenario with the rate 1200 and 1100
  months, a Valid vector that passes the validation: the closed form is about 200000,
  \<open>calculateMensualiteProjet\<close> returns 200000, and the payment of script.js is NaN.
\<close>

theorem long_loan_payment_is_not_closed_form:
  "spec_Valid overflow_inputs \<and> \<not> validation_fails overflow_inputs \<and>
   prix overflow_inputs = Fin 200000 \<and> tauxAnnuel overflow_inputs = Fin 1200 \<and>
   nbMensualites overflow_inputs = Fin 1100 \<and>
   200000 \<le> annuity_payment 200000 1200 1100 \<and> annuity_payment 200000 1200 1100 < 200001 \<and>
   calculateMensualiteProjet (Fin 200000) (Fin 1200) (Fin 1100) = Fin 200000 \<and>
   mensualiteProjet overflow_inputs = NaN"
  using spec_Valid_overflow spec_Valid_passes[OF spec_Valid_overflow] overflow_values(3)
    helper_on_long_loan closed_form_on_long_loan
  by (simp add: overflow_inputs_def scenario_def)

text \<open>
  Claim C9 says that on every Valid vector the factor \<open>facteurPMT\<close> and the monthly
  payment \<open>mensualiteProjet\<close> are strictly positive. The code at the same vector: the
  power is \<open>Infinity\<close>, the factor and the payment are NaN, and neither is greater
  than 0.
\<close>

theorem long_loan_factor_is_not_positive:
  "spec_Valid overflow_inputs \<and> \<not> validation_fails overflow_inputs \<and>
   Math_pow (Fin 1 + tauxMensuel overflow_inputs) (nbMensualites overflow_inputs) = PInf \<and>
   facteurPMT overflow_inputs = NaN \<and> mensualiteProjet overflow_inputs = NaN \<and>
   \<not> facteurPMT overflow_inputs > Fin 0 \<and> \<not> mensualiteProjet overflow_inputs > Fin 0"
  using spec_Valid_overflow spec_Valid_passes[OF spec_Valid_overflow] overflow_values
  by (simp add: js_ops)

end
